theory Spec2Isabelle
  imports Main "HOL-Library.Sublist"
begin

section \<open>Values: what \<open>json.load\<close> produces and what the handlers return\<close>

text \<open>
  A Python \<open>str\<close> is a sequence of Unicode code points; it is modelled as the list of
  their numbers. \<open>lit\<close> writes the string literals of the source, whose characters are
  all below U+0100, as such lists.
\<close>

type_synonym str = "nat list"

definition lit :: "string \<Rightarrow> str" where
  "lit s = map of_char s"

text \<open>
  \<open>app.py\<close> keeps the parsed document in the module-level \<open>patient_data\<close> and never
  looks at a static type: every access is a dynamic \<open>.get\<close>, an iteration, a \<open>len\<close>,
  an \<open>==\<close> or a truth test. The values are therefore modelled dynamically. A Python
  \<open>dict\<close> is the list of its items in insertion order, read by key with \<open>map_of\<close>;
  Python's \<open>None\<close> is \<open>JNull\<close>. Numbers are never inspected by the handlers, so one
  numeric constructor stands for them.
\<close>

datatype json =
    JNull
  | JBool bool
  | JNum int
  | JStr str
  | JList "json list"
  | JObj "(str \<times> json) list"

text \<open>
  What a request can end with besides a response: the \<open>HTTPException\<close> the handlers
  raise themselves (status code and detail), or an exception of the interpreter that no
  handler catches.
\<close>

datatype py_error = AttributeError | TypeError

datatype failure = HTTPException nat str | Uncaught py_error

subsection \<open>The Python operations the handlers use\<close>

text \<open>\<open>x.get(key, default)\<close>: only a \<open>dict\<close> has the method.\<close>

fun py_get :: "json \<Rightarrow> str \<Rightarrow> json \<Rightarrow> failure + json" where
  "py_get (JObj kvs) key dflt = Inr (case map_of kvs key of None \<Rightarrow> dflt | Some v \<Rightarrow> v)"
| "py_get _ key dflt = Inl (Uncaught AttributeError)"

text \<open>
  \<open>for x in v\<close> and the comprehension's \<open>in v\<close>: a list gives its elements, a
  \<open>dict\<close> its keys, a string its characters; nothing else is iterable.
\<close>

fun py_iter :: "json \<Rightarrow> failure + json list" where
  "py_iter (JList xs) = Inr xs"
| "py_iter (JObj kvs) = Inr (map (\<lambda>kv. JStr (fst kv)) kvs)"
| "py_iter (JStr s) = Inr (map (\<lambda>c. JStr [c]) s)"
| "py_iter _ = Inl (Uncaught TypeError)"

text \<open>\<open>len(v)\<close>.\<close>

fun py_len :: "json \<Rightarrow> failure + nat" where
  "py_len (JList xs) = Inr (length xs)"
| "py_len (JObj kvs) = Inr (length kvs)"
| "py_len (JStr s) = Inr (length s)"
| "py_len _ = Inl (Uncaught TypeError)"

text \<open>The truth value of \<open>if v\<close> and \<open>if not v\<close>.\<close>

fun truthy :: "json \<Rightarrow> bool" where
  "truthy JNull = False"
| "truthy (JBool b) = b"
| "truthy (JNum n) = (n \<noteq> 0)"
| "truthy (JStr s) = (s \<noteq> [])"
| "truthy (JList xs) = (xs \<noteq> [])"
| "truthy (JObj kvs) = (kvs \<noteq> [])"

text \<open>
  \<open>str.lower()\<close> is the interpreter's case mapping over all of Unicode; its tables are
  not part of the program. Every function that calls it takes it as the parameter
  \<open>lower\<close>. \<open>v.lower()\<close> on a dynamic value: only a \<open>str\<close> has the method.
\<close>

fun py_lower :: "(str \<Rightarrow> str) \<Rightarrow> json \<Rightarrow> failure + str" where
  "py_lower lower (JStr s) = Inr (lower s)"
| "py_lower lower _ = Inl (Uncaught AttributeError)"

text \<open>\<open>a in b\<close> on two strings: \<open>a\<close> occurs in \<open>b\<close> as a contiguous run.\<close>

fun str_contains :: "str \<Rightarrow> str \<Rightarrow> bool" where
  "str_contains a [] = (a = [])"
| "str_contains a (c # cs) = (prefix a (c # cs) \<or> str_contains a cs)"

section \<open>The dataset loader\<close>

text \<open>
  The \<open>try\<close> block at module level opens \<open>dummy_patient_data.json\<close> for reading as
  UTF-8 text and hands it to \<open>json.load\<close>. What the body does depends on the file as
  the interpreter finds it: absent, not readable by the process, present with bytes that
  are not UTF-8, present with text that is not a JSON document, or present with the text
  of a JSON document.
\<close>

datatype data_file =
    Missing
  | Unreadable
  | Undecodable
  | Invalid_JSON
  | Document json

datatype load_exception =
    FileNotFoundError
  | PermissionError
  | UnicodeDecodeError
  | JSONDecodeError

text \<open>The body of the \<open>try\<close>: \<open>open\<close>, then \<open>json.load\<close>, which reads, decodes and parses.\<close>

fun try_body :: "data_file \<Rightarrow> load_exception + json" where
  "try_body Missing = Inl FileNotFoundError"
| "try_body Unreadable = Inl PermissionError"
| "try_body Undecodable = Inl UnicodeDecodeError"
| "try_body Invalid_JSON = Inl JSONDecodeError"
| "try_body (Document doc) = Inr doc"

text \<open>
  The \<open>try\<close> statement with its two \<open>except\<close> clauses, tried in order; an exception
  that neither clause names leaves the statement, and the module is not loaded.
\<close>

definition load_patient_data :: "data_file \<Rightarrow> load_exception + json" where
  "load_patient_data file =
     (case try_body file of
        Inr doc \<Rightarrow> Inr doc
      | Inl e \<Rightarrow>
          if e = FileNotFoundError then Inr (JObj [(lit ''patients'', JList [])])
          else if e = JSONDecodeError then Inr (JObj [(lit ''patients'', JList [])])
          else Inl e)"

section \<open>The query service\<close>

subsection \<open>\<open>find_patient_by_id\<close>\<close>

text \<open>The \<open>for\<close> loop of the helper, over the elements still to visit.\<close>

fun find_loop :: "json list \<Rightarrow> str \<Rightarrow> failure + json" where
  "find_loop [] patient_id = Inr JNull"
| "find_loop (patient # rest) patient_id =
     (case py_get patient (lit ''patientId'') JNull of
        Inl e \<Rightarrow> Inl e
      | Inr v \<Rightarrow> if v = JStr patient_id then Inr patient else find_loop rest patient_id)"

definition find_patient_by_id :: "json \<Rightarrow> str \<Rightarrow> failure + json" where
  "find_patient_by_id patient_data patient_id =
     (case py_get patient_data (lit ''patients'') (JList []) of
        Inl e \<Rightarrow> Inl e
      | Inr ps \<Rightarrow>
          (case py_iter ps of
             Inl e \<Rightarrow> Inl e
           | Inr xs \<Rightarrow> find_loop xs patient_id))"

text \<open>The f-string \<open>f"Patient with ID {patient_id} not found"\<close>.\<close>

definition not_found_detail :: "str \<Rightarrow> str" where
  "not_found_detail patient_id = lit ''Patient with ID '' @ patient_id @ lit '' not found''"

definition not_found :: "str \<Rightarrow> failure" where
  "not_found patient_id = HTTPException 404 (not_found_detail patient_id)"

subsection \<open>\<open>GET /api/patients\<close>\<close>

definition get_all_patients :: "json \<Rightarrow> failure + json" where
  "get_all_patients patient_data =
     (case py_get patient_data (lit ''patients'') (JList []) of
        Inl e \<Rightarrow> Inl e
      | Inr ps \<Rightarrow>
          (case py_len ps of
             Inl e \<Rightarrow> Inl e
           | Inr n \<Rightarrow>
               Inr (JObj [(lit ''success'', JBool True),
                          (lit ''count'', JNum (int n)),
                          (lit ''patients'', ps)])))"

subsection \<open>\<open>GET /api/patients/{patient_id}\<close>\<close>

definition get_patient_by_id :: "json \<Rightarrow> str \<Rightarrow> failure + json" where
  "get_patient_by_id patient_data patient_id =
     (case find_patient_by_id patient_data patient_id of
        Inl e \<Rightarrow> Inl e
      | Inr patient \<Rightarrow>
          if \<not> truthy patient then Inl (not_found patient_id)
          else Inr (JObj [(lit ''success'', JBool True), (lit ''patient'', patient)]))"

subsection \<open>\<open>GET /api/patients/search/name\<close>\<close>

text \<open>
  The condition of the handler's list comprehensions on one record \<open>p\<close>:
  \<open>q.lower() in p.get("personalInformation", {}).get(key, "").lower()\<close>, with \<open>key\<close>
  the name field (\<open>firstName\<close> or \<open>lastName\<close>) and \<open>q\<close> the query.
\<close>

definition name_test :: "(str \<Rightarrow> str) \<Rightarrow> str \<Rightarrow> str \<Rightarrow> json \<Rightarrow> failure + bool" where
  "name_test lower key q p =
     (case py_get p (lit ''personalInformation'') (JObj []) of
        Inl e \<Rightarrow> Inl e
      | Inr info \<Rightarrow>
          (case py_get info key (JStr []) of
             Inl e \<Rightarrow> Inl e
           | Inr v \<Rightarrow>
               (case py_lower lower v of
                  Inl e \<Rightarrow> Inl e
                | Inr s \<Rightarrow> Inr (str_contains (lower q) s))))"

text \<open>The comprehension \<open>[p for p in results if ...]\<close> over the elements of \<open>results\<close>.\<close>

fun name_filter :: "(str \<Rightarrow> str) \<Rightarrow> str \<Rightarrow> str \<Rightarrow> json list \<Rightarrow> failure + json list" where
  "name_filter lower key q [] = Inr []"
| "name_filter lower key q (p # ps) =
     (case name_test lower key q p of
        Inl e \<Rightarrow> Inl e
      | Inr b \<Rightarrow>
          (case name_filter lower key q ps of
             Inl e \<Rightarrow> Inl e
           | Inr rest \<Rightarrow> Inr (if b then p # rest else rest)))"

text \<open>
  \<open>if q: results = [...]\<close>: the filter runs when the parameter is given and not the
  empty string; otherwise \<open>results\<close> stays as it is.
\<close>

definition apply_name_filter ::
  "(str \<Rightarrow> str) \<Rightarrow> str \<Rightarrow> str option \<Rightarrow> json \<Rightarrow> failure + json" where
  "apply_name_filter lower key param results =
     (case param of
        None \<Rightarrow> Inr results
      | Some q \<Rightarrow>
          if q = [] then Inr results
          else (case py_iter results of
                  Inl e \<Rightarrow> Inl e
                | Inr xs \<Rightarrow>
                    (case name_filter lower key q xs of
                       Inl e \<Rightarrow> Inl e
                     | Inr ys \<Rightarrow> Inr (JList ys))))"

definition search_patients_by_name ::
  "(str \<Rightarrow> str) \<Rightarrow> json \<Rightarrow> str option \<Rightarrow> str option \<Rightarrow> failure + json" where
  "search_patients_by_name lower patient_data firstName lastName =
     (case py_get patient_data (lit ''patients'') (JList []) of
        Inl e \<Rightarrow> Inl e
      | Inr results0 \<Rightarrow>
          (case apply_name_filter lower (lit ''firstName'') firstName results0 of
             Inl e \<Rightarrow> Inl e
           | Inr results1 \<Rightarrow>
               (case apply_name_filter lower (lit ''lastName'') lastName results1 of
                  Inl e \<Rightarrow> Inl e
                | Inr results \<Rightarrow>
                    (case py_len results of
                       Inl e \<Rightarrow> Inl e
                     | Inr n \<Rightarrow>
                         Inr (JObj [(lit ''success'', JBool True),
                                    (lit ''count'', JNum (int n)),
                                    (lit ''patients'', results)])))))"

subsection \<open>\<open>GET /api/patients/{patient_id}/appointments\<close>\<close>

text \<open>The handler from \<open>appointments = patient.get("appointments", {})\<close> on.\<close>

definition appointments_body :: "json \<Rightarrow> str option \<Rightarrow> failure + json" where
  "appointments_body patient type =
     (case py_get patient (lit ''appointments'') (JObj []) of
        Inl e \<Rightarrow> Inl e
      | Inr appointments \<Rightarrow>
          (case type of
             None \<Rightarrow>
               Inr (JObj [(lit ''success'', JBool True), (lit ''appointments'', appointments)])
           | Some t \<Rightarrow>
               if t \<noteq> [] \<and> t \<in> set [lit ''upcoming'', lit ''recent'', lit ''past'']
               then (case py_get appointments t (JList []) of
                       Inl e \<Rightarrow> Inl e
                     | Inr bucket \<Rightarrow>
                         Inr (JObj [(lit ''success'', JBool True),
                                    (lit ''type'', JStr t),
                                    (lit ''appointments'', bucket)]))
               else Inr (JObj [(lit ''success'', JBool True), (lit ''appointments'', appointments)])))"

definition get_patient_appointments :: "json \<Rightarrow> str \<Rightarrow> str option \<Rightarrow> failure + json" where
  "get_patient_appointments patient_data patient_id type =
     (case find_patient_by_id patient_data patient_id of
        Inl e \<Rightarrow> Inl e
      | Inr patient \<Rightarrow>
          if \<not> truthy patient then Inl (not_found patient_id)
          else appointments_body patient type)"

subsection \<open>\<open>GET /api/patients/{patient_id}/test-results\<close>\<close>

text \<open>\<open>[test for test in results if test.get("testType") == testType]\<close>.\<close>

fun test_filter :: "str \<Rightarrow> json list \<Rightarrow> failure + json list" where
  "test_filter testType [] = Inr []"
| "test_filter testType (test # tests) =
     (case py_get test (lit ''testType'') JNull of
        Inl e \<Rightarrow> Inl e
      | Inr v \<Rightarrow>
          (case test_filter testType tests of
             Inl e \<Rightarrow> Inl e
           | Inr rest \<Rightarrow> Inr (if v = JStr testType then test # rest else rest)))"

text \<open>The handler from \<open>results = patient.get("testResults", [])\<close> on.\<close>

definition test_results_body :: "json \<Rightarrow> str option \<Rightarrow> failure + json" where
  "test_results_body patient testType =
     (case py_get patient (lit ''testResults'') (JList []) of
        Inl e \<Rightarrow> Inl e
      | Inr results0 \<Rightarrow>
          (case (case testType of
                   None \<Rightarrow> Inr results0
                 | Some t \<Rightarrow>
                     if t = [] then Inr results0
                     else (case py_iter results0 of
                             Inl e \<Rightarrow> Inl e
                           | Inr xs \<Rightarrow>
                               (case test_filter t xs of
                                  Inl e \<Rightarrow> Inl e
                                | Inr ys \<Rightarrow> Inr (JList ys)))) of
             Inl e \<Rightarrow> Inl e
           | Inr results \<Rightarrow>
               (case py_len results of
                  Inl e \<Rightarrow> Inl e
                | Inr n \<Rightarrow>
                    Inr (JObj [(lit ''success'', JBool True),
                               (lit ''count'', JNum (int n)),
                               (lit ''testResults'', results)]))))"

definition get_patient_test_results :: "json \<Rightarrow> str \<Rightarrow> str option \<Rightarrow> failure + json" where
  "get_patient_test_results patient_data patient_id testType =
     (case find_patient_by_id patient_data patient_id of
        Inl e \<Rightarrow> Inl e
      | Inr patient \<Rightarrow>
          if \<not> truthy patient then Inl (not_found patient_id)
          else test_results_body patient testType)"

subsection \<open>The four accessors without a filter\<close>

text \<open>
  \<open>return {"success": True, name: patient.get(name, default)}\<close>, the last statement of
  \<open>get_patient_medical_history\<close>, \<open>get_patient_insurance\<close>,
  \<open>get_patient_care_providers\<close> and \<open>get_patient_procedures\<close>.
\<close>

definition field_body :: "str \<Rightarrow> json \<Rightarrow> json \<Rightarrow> failure + json" where
  "field_body name dflt patient =
     (case py_get patient name dflt of
        Inl e \<Rightarrow> Inl e
      | Inr v \<Rightarrow> Inr (JObj [(lit ''success'', JBool True), (name, v)]))"

definition get_patient_medical_history :: "json \<Rightarrow> str \<Rightarrow> failure + json" where
  "get_patient_medical_history patient_data patient_id =
     (case find_patient_by_id patient_data patient_id of
        Inl e \<Rightarrow> Inl e
      | Inr patient \<Rightarrow>
          if \<not> truthy patient then Inl (not_found patient_id)
          else field_body (lit ''medicalHistory'') (JObj []) patient)"

definition get_patient_insurance :: "json \<Rightarrow> str \<Rightarrow> failure + json" where
  "get_patient_insurance patient_data patient_id =
     (case find_patient_by_id patient_data patient_id of
        Inl e \<Rightarrow> Inl e
      | Inr patient \<Rightarrow>
          if \<not> truthy patient then Inl (not_found patient_id)
          else field_body (lit ''insurance'') (JObj []) patient)"

definition get_patient_care_providers :: "json \<Rightarrow> str \<Rightarrow> failure + json" where
  "get_patient_care_providers patient_data patient_id =
     (case find_patient_by_id patient_data patient_id of
        Inl e \<Rightarrow> Inl e
      | Inr patient \<Rightarrow>
          if \<not> truthy patient then Inl (not_found patient_id)
          else field_body (lit ''careProviders'') (JList []) patient)"

definition get_patient_procedures :: "json \<Rightarrow> str \<Rightarrow> failure + json" where
  "get_patient_procedures patient_data patient_id =
     (case find_patient_by_id patient_data patient_id of
        Inl e \<Rightarrow> Inl e
      | Inr patient \<Rightarrow>
          if \<not> truthy patient then Inl (not_found patient_id)
          else field_body (lit ''procedures'') (JList []) patient)"

section \<open>Vocabulary of the properties\<close>

text \<open>Reading a record: the value stored under a key, if the value is an object that has it.\<close>

fun field :: "json \<Rightarrow> str \<Rightarrow> json option" where
  "field (JObj kvs) key = map_of kvs key"
| "field _ key = None"

fun is_obj :: "json \<Rightarrow> bool" where
  "is_obj (JObj kvs) = True"
| "is_obj _ = False"

text \<open>The record carries the field \<open>patientId\<close> and it is the string \<open>patient_id\<close>.\<close>

definition has_id :: "str \<Rightarrow> json \<Rightarrow> bool" where
  "has_id patient_id p = (field p (lit ''patientId'') = Some (JStr patient_id))"

text \<open>
  The name a search compares: \<open>personalInformation.firstName\<close> or \<open>.lastName\<close>, the
  empty string when the field (or \<open>personalInformation\<close>) is absent.
\<close>

definition name_of :: "str \<Rightarrow> json \<Rightarrow> str" where
  "name_of key p =
     (case field p (lit ''personalInformation'') of
        None \<Rightarrow> []
      | Some info \<Rightarrow> (case field info key of Some (JStr s) \<Rightarrow> s | _ \<Rightarrow> []))"

text \<open>
  A patient record as the data model describes it, as far as a search reads it: an object
  whose \<open>personalInformation\<close>, when present, is an object whose \<open>firstName\<close> and
  \<open>lastName\<close>, when present, are strings.
\<close>

definition name_ok :: "json \<Rightarrow> str \<Rightarrow> bool" where
  "name_ok info key = (case field info key of None \<Rightarrow> True | Some (JStr s) \<Rightarrow> True | Some _ \<Rightarrow> False)"

definition named_record :: "json \<Rightarrow> bool" where
  "named_record p =
     (is_obj p \<and>
      (case field p (lit ''personalInformation'') of
         None \<Rightarrow> True
       | Some info \<Rightarrow> is_obj info \<and> name_ok info (lit ''firstName'') \<and> name_ok info (lit ''lastName'')))"

text \<open>
  The search as the specification words it, with \<open>str.lower\<close> as the case mapping:
  \<open>q\<close> matches \<open>s\<close> when the case-mapped \<open>q\<close> occurs in the case-mapped \<open>s\<close> as a
  contiguous run; an absent filter restricts nothing; both filters are combined with AND.
\<close>

definition folded_substring :: "(str \<Rightarrow> str) \<Rightarrow> str \<Rightarrow> str \<Rightarrow> bool" where
  "folded_substring lower q s = sublist (lower q) (lower s)"



text \<open>
  Case-insensitivity said without any case mapping, for ASCII text. Two code points are
  the same letter when they are equal or are the capital (U+0041 to U+005A) and the small
  form (32 further) of one letter. \<open>q\<close> is a case-insensitive substring of \<open>s\<close> when
  some contiguous run of \<open>s\<close> has the length of \<open>q\<close> and is, position by position, the
  same letter.
\<close>

definition same_letter :: "nat \<Rightarrow> nat \<Rightarrow> bool" where
  "same_letter c d =
     (c = d \<or> (65 \<le> c \<and> c \<le> 90 \<and> d = c + 32) \<or> (65 \<le> d \<and> d \<le> 90 \<and> c = d + 32))"

fun ci_prefix :: "str \<Rightarrow> str \<Rightarrow> bool" where
  "ci_prefix [] s = True"
| "ci_prefix (c # q) [] = False"
| "ci_prefix (c # q) (d # s) = (same_letter c d \<and> ci_prefix q s)"

fun ci_substring :: "str \<Rightarrow> str \<Rightarrow> bool" where
  "ci_substring q [] = (q = [])"
| "ci_substring q (d # s) = (ci_prefix q (d # s) \<or> ci_substring q s)"





definition ascii_lower :: "str \<Rightarrow> str" where
  "ascii_lower s = map (\<lambda>c. if 65 \<le> c \<and> c \<le> 90 then c + 32 else c) s"



text \<open>
  Whether one \<open>if q: results = [...]\<close> step of the handler keeps the record \<open>p\<close>: the
  step is skipped without a query, and otherwise keeps the records whose condition is true.
\<close>

definition keeps :: "(str \<Rightarrow> str) \<Rightarrow> str \<Rightarrow> str option \<Rightarrow> json \<Rightarrow> bool" where
  "keeps lower key param p =
     (case param of None \<Rightarrow> True | Some q \<Rightarrow> q = [] \<or> name_test lower key q p = Inr True)"

text \<open>The envelope of a search over the list \<open>rs\<close>.\<close>

abbreviation search_response :: "json list \<Rightarrow> json" where
  "search_response rs \<equiv>
     JObj [(lit ''success'', JBool True), (lit ''count'', JNum (int (length rs))), (lit ''patients'', JList rs)]"

text \<open>
  The entries of a test-result sequence whose \<open>testType\<close> field is the string
  \<open>testType\<close>, compared exactly.
\<close>

definition tests_of_type :: "str \<Rightarrow> json list \<Rightarrow> json list" where
  "tests_of_type testType tests =
     filter (\<lambda>test. field test (lit ''testType'') = Some (JStr testType)) tests"

text \<open>The three appointment buckets.\<close>

definition buckets :: "str set" where
  "buckets = {lit ''upcoming'', lit ''recent'', lit ''past''}"

text \<open>
  What each accessor is to answer for a record \<open>p\<close>, said from the fields of \<open>p\<close>.
  \<open>field_or\<close> is the field's value, or the given value when the field is absent.
\<close>

definition field_or :: "json \<Rightarrow> str \<Rightarrow> json \<Rightarrow> json" where
  "field_or p name dflt = (case field p name of None \<Rightarrow> dflt | Some v \<Rightarrow> v)"

definition expected_field :: "str \<Rightarrow> json \<Rightarrow> json \<Rightarrow> json" where
  "expected_field name dflt p = JObj [(lit ''success'', JBool True), (name, field_or p name dflt)]"

definition expected_appointments :: "json \<Rightarrow> str option \<Rightarrow> json" where
  "expected_appointments p type =
     (case type of
        None \<Rightarrow> JObj [(lit ''success'', JBool True),
                     (lit ''appointments'', field_or p (lit ''appointments'') (JObj []))]
      | Some t \<Rightarrow>
          if t \<in> buckets
          then JObj [(lit ''success'', JBool True),
                     (lit ''type'', JStr t),
                     (lit ''appointments'',
                      field_or (field_or p (lit ''appointments'') (JObj [])) t (JList []))]
          else JObj [(lit ''success'', JBool True),
                     (lit ''appointments'', field_or p (lit ''appointments'') (JObj []))])"

text \<open>
  The elements and the length of a value of the record, as Python iterates and measures
  it (a list's elements, a mapping's keys, a string's characters).
\<close>

definition elements :: "json \<Rightarrow> json list" where
  "elements v = (case py_iter v of Inl e \<Rightarrow> [] | Inr xs \<Rightarrow> xs)"

definition size_of :: "json \<Rightarrow> nat" where
  "size_of v = (case py_len v of Inl e \<Rightarrow> 0 | Inr n \<Rightarrow> n)"

definition expected_test_results :: "json \<Rightarrow> str option \<Rightarrow> json" where
  "expected_test_results p testType =
     (case testType of
        None \<Rightarrow> JObj [(lit ''success'', JBool True),
                     (lit ''count'', JNum (int (size_of (field_or p (lit ''testResults'') (JList []))))),
                     (lit ''testResults'', field_or p (lit ''testResults'') (JList []))]
      | Some t \<Rightarrow>
          if t = []
          then JObj [(lit ''success'', JBool True),
                     (lit ''count'', JNum (int (size_of (field_or p (lit ''testResults'') (JList []))))),
                     (lit ''testResults'', field_or p (lit ''testResults'') (JList []))]
          else JObj [(lit ''success'', JBool True),
                     (lit ''count'',
                      JNum (int (length (tests_of_type t
                        (elements (field_or p (lit ''testResults'') (JList []))))))),
                     (lit ''testResults'',
                      JList (tests_of_type t
                        (elements (field_or p (lit ''testResults'') (JList [])))))])"

subsection \<open>Example data\<close>

definition anna :: json where
  "anna = JObj [(lit ''patientId'', JStr (lit ''P1'')),
                (lit ''personalInformation'',
                 JObj [(lit ''firstName'', JStr (lit ''Anna'')), (lit ''lastName'', JStr (lit ''Lee''))])]"

definition cbc :: json where
  "cbc = JObj [(lit ''testType'', JStr (lit ''Laboratory'')), (lit ''name'', JStr (lit ''CBC''))]"

definition xray :: json where
  "xray = JObj [(lit ''testType'', JStr (lit ''Radiology'')), (lit ''name'', JStr (lit ''X-ray''))]"

definition visit :: json where
  "visit = JObj [(lit ''date'', JStr (lit ''2026-01-05''))]"

definition diana :: json where
  "diana = JObj [(lit ''patientId'', JStr (lit ''P2'')),
                 (lit ''personalInformation'',
                  JObj [(lit ''firstName'', JStr (lit ''Diana'')), (lit ''lastName'', JStr (lit ''Moss''))]),
                 (lit ''appointments'', JObj [(lit ''upcoming'', JList [visit])]),
                 (lit ''testResults'', JList [cbc, xray])]"

definition clinic :: json where
  "clinic = JObj [(lit ''patients'', JList [anna, diana])]"

text \<open>Two different records under one \<open>patientId\<close>.\<close>

definition twin_first :: json where
  "twin_first = JObj [(lit ''patientId'', JStr (lit ''P1'')),
                      (lit ''personalInformation'', JObj [(lit ''firstName'', JStr (lit ''Anna''))])]"

definition twin_second :: json where
  "twin_second = JObj [(lit ''patientId'', JStr (lit ''P1'')),
                       (lit ''personalInformation'', JObj [(lit ''firstName'', JStr (lit ''Diana''))])]"

definition twins :: json where
  "twins = JObj [(lit ''patients'', JList [twin_first, twin_second])]"

section \<open>String literals\<close>

lemma lit_eq_iff: "lit a = lit b \<longleftrightarrow> a = b"
  unfolding lit_def by (rule inj_map_eq_map) (rule injI, simp)

lemma lit_Nil: "lit [] = []"
  by (simp add: lit_def)

lemma lit_eq_Nil: "lit a = [] \<longleftrightarrow> a = []" "[] = lit a \<longleftrightarrow> a = []"
  by (auto simp: lit_def)

lemma lit_append: "lit (a @ b) = lit a @ lit b"
  by (simp add: lit_def)

lemmas lit_simps = lit_eq_iff lit_Nil lit_eq_Nil

declare lit_simps [simp]

section \<open>The lookup helper\<close>

lemma py_get_obj:
  "is_obj p \<Longrightarrow> py_get p key d = Inr (case field p key of None \<Rightarrow> d | Some v \<Rightarrow> v)"
  by (cases p) auto

lemma has_id_truthy: "has_id pid p \<Longrightarrow> truthy p"
  by (cases p) (auto simp: has_id_def)

lemma has_id_obj: "has_id pid p \<Longrightarrow> is_obj p"
  by (cases p) (auto simp: has_id_def)

text \<open>The scan over records that are all objects finds the first one carrying the id.\<close>

lemma find_loop_objs:
  "\<forall>x\<in>set xs. is_obj x \<Longrightarrow>
   find_loop xs pid = Inr (case List.find (has_id pid) xs of None \<Rightarrow> JNull | Some p \<Rightarrow> p)"
proof (induction xs)
  case Nil
  show ?case by simp
next
  case (Cons x xs)
  then show ?case by (cases x) (auto simp: has_id_def split: option.splits)
qed

text \<open>Whatever the list holds, a value the scan returns is \<open>None\<close> or carries the id.\<close>

lemma find_loop_result:
  "find_loop xs pid = Inr r \<Longrightarrow> r = JNull \<or> (r \<in> set xs \<and> has_id pid r)"
proof (induction xs)
  case Nil
  then show ?case by simp
next
  case (Cons x xs)
  then show ?case by (cases x) (auto simp: has_id_def split: option.splits if_splits)
qed

lemma find_loop_first:
  "\<forall>q\<in>set pre. is_obj q \<and> \<not> has_id pid q \<Longrightarrow> has_id pid p \<Longrightarrow>
   find_loop (pre @ p # post) pid = Inr p"
proof (induction pre)
  case Nil
  then show ?case by (cases p) (auto simp: has_id_def)
next
  case (Cons x xs)
  then show ?case by (cases x) (auto simp: has_id_def split: option.splits)
qed

lemma find_patient_list:
  "py_get pd (lit ''patients'') (JList []) = Inr (JList ps) \<Longrightarrow>
   find_patient_by_id pd pid = find_loop ps pid"
  by (simp add: find_patient_by_id_def)

lemma find_patient_result:
  "find_patient_by_id pd pid = Inr r \<Longrightarrow> r = JNull \<or> has_id pid r"
  unfolding find_patient_by_id_def
  by (auto split: sum.splits dest: find_loop_result)

lemma find_patient_truthy:
  "find_patient_by_id pd pid = Inr r \<Longrightarrow> r \<noteq> JNull \<Longrightarrow> truthy r \<and> is_obj r"
  using find_patient_result [of pd pid r] has_id_truthy has_id_obj by blast

lemmas example_defs = anna_def diana_def clinic_def twin_first_def twin_second_def twins_def

text \<open>
  C10. For every string \<open>patient_id\<close>, \<open>find_patient_by_id\<close> returns \<open>None\<close> or the
  first record, in dataset order, whose \<open>patientId\<close> field is present and equal to
  \<open>patient_id\<close>: over a dataset whose records are objects the result is exactly the first
  such record, \<open>None\<close> when there is none; and over any document at all, a value that is
  returned and is not \<open>None\<close> carries \<open>patientId = patient_id\<close>, so a record without
  the field is never returned.
\<close>

theorem find_patient_by_id_first_match:
  "(py_get pd (lit ''patients'') (JList []) = Inr (JList ps) \<and> (\<forall>p\<in>set ps. is_obj p) \<longrightarrow>
      find_patient_by_id pd patient_id =
        Inr (case List.find (has_id patient_id) ps of None \<Rightarrow> JNull | Some p \<Rightarrow> p))
   \<and> (find_patient_by_id pd patient_id = Inr r \<longrightarrow>
          r = JNull \<or> field r (lit ''patientId'') = Some (JStr patient_id))"
proof (intro conjI impI)
  assume "py_get pd (lit ''patients'') (JList []) = Inr (JList ps) \<and> (\<forall>p\<in>set ps. is_obj p)"
  then show "find_patient_by_id pd patient_id =
      Inr (case List.find (has_id patient_id) ps of None \<Rightarrow> JNull | Some p \<Rightarrow> p)"
    by (simp add: find_patient_list find_loop_objs)
next
  assume "find_patient_by_id pd patient_id = Inr r"
  then show "r = JNull \<or> field r (lit ''patientId'') = Some (JStr patient_id)"
    using find_patient_result [of pd patient_id r] by (simp add: has_id_def)
qed

theorem find_patient_by_id_first_match_witness:
  "py_get clinic (lit ''patients'') (JList []) = Inr (JList [anna, diana])
   \<and> is_obj anna \<and> is_obj diana
   \<and> find_patient_by_id clinic (lit ''P2'') = Inr diana
   \<and> field diana (lit ''patientId'') = Some (JStr (lit ''P2''))
   \<and> find_patient_by_id clinic (lit ''P9'') = Inr JNull"
  using find_patient_by_id_first_match [of clinic "[anna, diana]" "lit ''P2''" diana]
        find_patient_by_id_first_match [of clinic "[anna, diana]" "lit ''P9''" JNull]
  by (simp add: example_defs has_id_def)

text \<open>
  C1, as the code has it. When \<open>P\<close> is a record of the dataset whose \<open>patientId\<close> is the
  string \<open>patient_id\<close>, and the records before \<open>P\<close> are objects none of which carries
  that id (every record of a dataset of objects with unique ids is in this position),
  Get-by-ID answers \<open>{success: true, patient: P}\<close> with \<open>P\<close> unchanged.
\<close>

theorem get_patient_by_id_round_trip:
  assumes "py_get pd (lit ''patients'') (JList []) = Inr (JList (pre @ P # post))"
    and "\<forall>q\<in>set pre. is_obj q \<and> \<not> has_id patient_id q"
    and "field P (lit ''patientId'') = Some (JStr patient_id)"
  shows "get_patient_by_id pd patient_id =
           Inr (JObj [(lit ''success'', JBool True), (lit ''patient'', P)])"
proof -
  have id: "has_id patient_id P"
    using assms(3) by (simp add: has_id_def)
  have "find_patient_by_id pd patient_id = Inr P"
    using assms(1,2) id by (simp add: find_patient_list find_loop_first)
  then show ?thesis
    using has_id_truthy [OF id] by (simp add: get_patient_by_id_def)
qed

theorem get_patient_by_id_round_trip_witness:
  "py_get clinic (lit ''patients'') (JList []) = Inr (JList ([anna] @ diana # []))
   \<and> is_obj anna \<and> \<not> has_id (lit ''P2'') anna
   \<and> field diana (lit ''patientId'') = Some (JStr (lit ''P2''))
   \<and> get_patient_by_id clinic (lit ''P2'') = Inr (JObj [(lit ''success'', JBool True), (lit ''patient'', diana)])"
  using get_patient_by_id_round_trip [of clinic "[anna]" diana "[]" "lit ''P2''"]
  by (simp add: example_defs has_id_def)

text \<open>
  The claim as written fails where two different records share a \<open>patientId\<close>: the
  second one is in the dataset, and Get-by-ID with its own id answers with the first.
\<close>

theorem get_patient_by_id_round_trip_counterexample:
  "py_get twins (lit ''patients'') (JList []) = Inr (JList [twin_first, twin_second])
   \<and> field twin_second (lit ''patientId'') = Some (JStr (lit ''P1''))
   \<and> get_patient_by_id twins (lit ''P1'')
         = Inr (JObj [(lit ''success'', JBool True), (lit ''patient'', twin_first)])
   \<and> get_patient_by_id twins (lit ''P1'')
         \<noteq> Inr (JObj [(lit ''success'', JBool True), (lit ''patient'', twin_second)])"
  by (simp add: example_defs get_patient_by_id_def find_patient_by_id_def)

text \<open>
  C2. For every string \<open>x\<close> that is the \<open>patientId\<close> of no record of the dataset,
  Get-by-ID fails with status 404 and the detail \<open>Patient with ID x not found\<close>; the
  result is this failure, so it is neither a success nor any other failure.
\<close>

theorem get_patient_by_id_not_found:
  assumes "py_get pd (lit ''patients'') (JList []) = Inr (JList ps)"
    and "\<forall>p\<in>set ps. is_obj p"
    and "\<forall>p\<in>set ps. field p (lit ''patientId'') \<noteq> Some (JStr x)"
  shows "get_patient_by_id pd x =
           Inl (HTTPException 404 (lit ''Patient with ID '' @ x @ lit '' not found''))"
proof -
  have "List.find (has_id x) ps = None"
    using assms(3) by (simp add: find_None_iff has_id_def)
  then have "find_patient_by_id pd x = Inr JNull"
    using assms(1,2) by (simp add: find_patient_list find_loop_objs)
  then show ?thesis
    by (simp add: get_patient_by_id_def not_found_def not_found_detail_def)
qed

theorem get_patient_by_id_not_found_witness:
  "py_get clinic (lit ''patients'') (JList []) = Inr (JList [anna, diana])
   \<and> is_obj anna \<and> is_obj diana
   \<and> field anna (lit ''patientId'') \<noteq> Some (JStr (lit ''P7''))
   \<and> field diana (lit ''patientId'') \<noteq> Some (JStr (lit ''P7''))
   \<and> get_patient_by_id clinic (lit ''P7'') = Inl (HTTPException 404 (lit ''Patient with ID P7 not found''))"
  using get_patient_by_id_not_found [of clinic "[anna, diana]" "lit ''P7''"]
  by (simp add: example_defs lit_append [symmetric])


text \<open>
  C6, as the code has it. When the data file is missing, or its content is text that is not
  a JSON document, the loader does not fail: it binds the dataset \<open>{"patients": []}\<close>,
  and List-all over that dataset answers \<open>{success: true, count: 0, patients: []}\<close>.
\<close>

theorem load_failure_gives_empty_dataset:
  assumes "file = Missing \<or> file = Invalid_JSON"
  shows "\<exists>pd. load_patient_data file = Inr pd
              \<and> pd = JObj [(lit ''patients'', JList [])]
              \<and> get_all_patients pd =
                    Inr (JObj [(lit ''success'', JBool True),
                               (lit ''count'', JNum 0),
                               (lit ''patients'', JList [])])"
proof -
  have raised: "try_body file = Inl FileNotFoundError \<or> try_body file = Inl JSONDecodeError"
    using assms by auto
  then have "load_patient_data file = Inr (JObj [(lit ''patients'', JList [])])"
    by (auto simp: load_patient_data_def)
  moreover have "get_all_patients (JObj [(lit ''patients'', JList [])]) =
      Inr (JObj [(lit ''success'', JBool True), (lit ''count'', JNum 0),
                 (lit ''patients'', JList [])])"
    by (simp add: get_all_patients_def)
  ultimately show ?thesis by simp
qed

theorem load_failure_gives_empty_dataset_witness:
  "load_patient_data Missing = Inr (JObj [(lit ''patients'', JList [])])
   \<and> load_patient_data Invalid_JSON = Inr (JObj [(lit ''patients'', JList [])])
   \<and> get_all_patients (JObj [(lit ''patients'', JList [])]) =
         Inr (JObj [(lit ''success'', JBool True), (lit ''count'', JNum 0),
                    (lit ''patients'', JList [])])"
  using load_failure_gives_empty_dataset [of Missing]
        load_failure_gives_empty_dataset [of Invalid_JSON]
  by simp

text \<open>
  The claim as written fails for content that is malformed in another way. Bytes that are
  not UTF-8 make \<open>json.load\<close> raise \<open>UnicodeDecodeError\<close>, which neither clause catches:
  start-up fails. A JSON document of another shape, here the list \<open>[]\<close>, is loaded as it
  is, and List-all then raises on it.
\<close>

theorem load_malformed_content_counterexample:
  "load_patient_data Undecodable = Inl UnicodeDecodeError
   \<and> load_patient_data (Document (JList [])) = Inr (JList [])
   \<and> get_all_patients (JList []) = Inl (Uncaught AttributeError)"
  by (simp add: load_patient_data_def get_all_patients_def)

section \<open>Search by name\<close>

lemma str_contains_sublist: "str_contains a b = sublist a b"
  by (induction b) (auto simp: sublist_Cons_right)

lemma name_filter_Inr:
  "name_filter lower key q xs = Inr ys \<Longrightarrow> ys = filter (\<lambda>p. name_test lower key q p = Inr True) xs"
  by (induction xs arbitrary: ys) (auto split: sum.splits if_splits)

lemma name_filter_total:
  "\<forall>p\<in>set xs. \<exists>b. name_test lower key q p = Inr b \<Longrightarrow>
   name_filter lower key q xs = Inr (filter (\<lambda>p. name_test lower key q p = Inr True) xs)"
  by (induction xs) (auto split: sum.splits)

lemma name_test_named:
  assumes "named_record p" and "key = lit ''firstName'' \<or> key = lit ''lastName''"
  shows "name_test lower key q p = Inr (folded_substring lower q (name_of key p))"
proof (cases p)
  case (JObj kvs)
  show ?thesis
  proof (cases "map_of kvs (lit ''personalInformation'')")
    case None
    then show ?thesis using JObj
      by (simp add: name_test_def name_of_def folded_substring_def str_contains_sublist)
  next
    case (Some info)
    then obtain ivs where info: "info = JObj ivs"
      using assms(1) JObj by (cases info) (auto simp: named_record_def)
    have ok: "name_ok info key"
      using assms JObj Some by (auto simp: named_record_def)
    show ?thesis
    proof (cases "map_of ivs key")
      case None
      then show ?thesis using JObj Some info
        by (simp add: name_test_def name_of_def folded_substring_def str_contains_sublist)
    next
      case (Some v)
      then obtain s where "v = JStr s"
        using ok info by (cases v) (auto simp: name_ok_def)
      then show ?thesis using JObj \<open>map_of kvs (lit ''personalInformation'') = Some info\<close> info Some
        by (simp add: name_test_def name_of_def folded_substring_def str_contains_sublist)
    qed
  qed
qed (use assms in \<open>auto simp: named_record_def\<close>)


lemma keeps_skip: "keeps lower key None = (\<lambda>p. True)" "keeps lower key (Some []) = (\<lambda>p. True)"
  by (simp_all add: keeps_def fun_eq_iff)

lemma keeps_query: "q \<noteq> [] \<Longrightarrow> keeps lower key (Some q) = (\<lambda>p. name_test lower key q p = Inr True)"
  by (simp add: keeps_def fun_eq_iff)

lemma apply_name_filter_Inr:
  "apply_name_filter lower key param (JList xs) = Inr r \<Longrightarrow> r = JList (filter (keeps lower key param) xs)"
  by (auto simp: apply_name_filter_def keeps_skip keeps_query
           split: option.splits if_splits sum.splits dest: name_filter_Inr)

lemma apply_name_filter_total:
  assumes "\<forall>p\<in>set xs. named_record p" and "key = lit ''firstName'' \<or> key = lit ''lastName''"
  shows "apply_name_filter lower key param (JList xs) = Inr (JList (filter (keeps lower key param) xs))"
proof (cases param)
  case None
  then show ?thesis by (simp add: apply_name_filter_def keeps_skip)
next
  case (Some q)
  have "\<forall>p\<in>set xs. \<exists>b. name_test lower key q p = Inr b"
    using assms name_test_named by blast
  then show ?thesis using Some
    by (simp add: apply_name_filter_def keeps_skip keeps_query name_filter_total)
qed

lemma search_Inr:
  assumes "py_get pd (lit ''patients'') (JList []) = Inr (JList ps)"
    and "search_patients_by_name lower pd fn ln = Inr resp"
  shows "resp = search_response (filter (\<lambda>p. keeps lower (lit ''firstName'') fn p \<and> keeps lower (lit ''lastName'') ln p) ps)"
proof -
  obtain r1 where r1: "apply_name_filter lower (lit ''firstName'') fn (JList ps) = Inr r1"
    using assms by (auto simp: search_patients_by_name_def split: sum.splits)
  then have r1': "r1 = JList (filter (keeps lower (lit ''firstName'') fn) ps)"
    by (rule apply_name_filter_Inr)
  obtain r2 where r2: "apply_name_filter lower (lit ''lastName'') ln r1 = Inr r2"
    using assms r1 by (auto simp: search_patients_by_name_def split: sum.splits)
  then have r2': "r2 = JList (filter (keeps lower (lit ''lastName'') ln) (filter (keeps lower (lit ''firstName'') fn) ps))"
    using r1' apply_name_filter_Inr by blast
  have "resp = search_response (filter (keeps lower (lit ''lastName'') ln) (filter (keeps lower (lit ''firstName'') fn) ps))"
    using assms r1 r2 r2' by (simp add: search_patients_by_name_def)
  then show ?thesis by simp
qed

lemma search_total:
  assumes "py_get pd (lit ''patients'') (JList []) = Inr (JList ps)"
    and "\<forall>p\<in>set ps. named_record p"
  shows "search_patients_by_name lower pd fn ln =
    Inr (search_response (filter (\<lambda>p. keeps lower (lit ''firstName'') fn p \<and> keeps lower (lit ''lastName'') ln p) ps))"
proof -
  have 1: "apply_name_filter lower (lit ''firstName'') fn (JList ps) = Inr (JList (filter (keeps lower (lit ''firstName'') fn) ps))"
    using assms(2) by (simp add: apply_name_filter_total)
  have 2: "apply_name_filter lower (lit ''lastName'') ln (JList (filter (keeps lower (lit ''firstName'') fn) ps))
      = Inr (JList (filter (keeps lower (lit ''lastName'') ln) (filter (keeps lower (lit ''firstName'') fn) ps)))"
    using assms(2) by (simp add: apply_name_filter_total)
  show ?thesis using assms(1) 1 2
    by (simp add: search_patients_by_name_def)
qed

lemma subseq_count_list: "subseq xs ys \<Longrightarrow> count_list xs a \<le> count_list ys a"
  by (induction rule: list_emb.induct) auto



lemma filter_both: "filter (\<lambda>p. A p \<and> B p) ps = filter B (filter A ps)"
  by (induction ps) auto

lemma filter_both_subseq:
  "subseq (filter (\<lambda>p. A p \<and> B p) ps) (filter A ps)"
  "subseq (filter (\<lambda>p. A p \<and> B p) ps) (filter B ps)"
proof -
  show "subseq (filter (\<lambda>p. A p \<and> B p) ps) (filter A ps)"
    unfolding filter_both by (rule subseq_filter_left)
  have "filter (\<lambda>p. A p \<and> B p) ps = filter A (filter B ps)"
    by (induction ps) auto
  then show "subseq (filter (\<lambda>p. A p \<and> B p) ps) (filter B ps)"
    by (simp only: subseq_filter_left)
qed









text \<open>What the letter-by-letter comparison says: some contiguous run matches.\<close>

lemma ci_prefix_run: "ci_prefix q s \<longleftrightarrow> (\<exists>r. prefix r s \<and> list_all2 same_letter q r)"
proof (induction q s rule: ci_prefix.induct)
  case (1 s)
  show ?case by auto
next
  case (2 c q)
  show ?case by (auto simp: list_all2_Cons1)
next
  case (3 c q d s)
  then show ?case by (auto simp: list_all2_Cons1 prefix_Cons)
qed

lemma ci_substring_run:
  "ci_substring q s \<longleftrightarrow> (\<exists>r. sublist r s \<and> list_all2 same_letter q r)"
proof (induction s)
  case Nil
  show ?case by auto
next
  case (Cons d s)
  then show ?case by (auto simp: sublist_Cons_right ci_prefix_run)
qed








text \<open>
  C9. Whatever the filters, the list a search returns is a subsequence of the dataset:
  its patients occur in the dataset, in dataset order, none more often than in the
  dataset; and a search with one more filter returns a subsequence of what the search
  without that filter returns. Over a dataset of patient records the search does return.
\<close>

theorem search_result_subsequence:
  assumes "py_get pd (lit ''patients'') (JList []) = Inr (JList ps)"
  shows "(search_patients_by_name lower pd firstName lastName = Inr resp \<longrightarrow>
            (\<exists>rs. resp = search_response rs \<and> subseq rs ps \<and> set rs \<subseteq> set ps
                  \<and> (\<forall>p. count_list rs p \<le> count_list ps p)))
         \<and> (search_patients_by_name lower pd firstName lastName = Inr (search_response rs)
              \<and> search_patients_by_name lower pd None lastName = Inr (search_response rs1)
              \<longrightarrow> subseq rs rs1)
         \<and> (search_patients_by_name lower pd firstName lastName = Inr (search_response rs)
              \<and> search_patients_by_name lower pd firstName None = Inr (search_response rs2)
              \<longrightarrow> subseq rs rs2)
         \<and> ((\<forall>p\<in>set ps. named_record p) \<longrightarrow>
              (\<exists>rs. search_patients_by_name lower pd firstName lastName = Inr (search_response rs)))"
proof (intro conjI impI)
  let ?both = "filter (\<lambda>p. keeps lower (lit ''firstName'') firstName p \<and> keeps lower (lit ''lastName'') lastName p) ps"
  assume "search_patients_by_name lower pd firstName lastName = Inr resp"
  then have resp: "resp = search_response ?both"
    by (rule search_Inr [OF assms])
  have "subseq ?both ps" by (rule subseq_filter_left)
  moreover have "set ?both \<subseteq> set ps" by (rule filter_is_subset)
  moreover have "\<forall>p. count_list ?both p \<le> count_list ps p"
    by (intro allI subseq_count_list subseq_filter_left)
  ultimately show "\<exists>rs. resp = search_response rs \<and> subseq rs ps \<and> set rs \<subseteq> set ps
                  \<and> (\<forall>p. count_list rs p \<le> count_list ps p)"
    using resp by blast
next
  let ?both = "filter (\<lambda>p. keeps lower (lit ''firstName'') firstName p \<and> keeps lower (lit ''lastName'') lastName p) ps"
  assume a: "search_patients_by_name lower pd firstName lastName = Inr (search_response rs)
              \<and> search_patients_by_name lower pd None lastName = Inr (search_response rs1)"
  have "search_response rs = search_response ?both"
    using a by (intro search_Inr [OF assms]) simp
  then have rs: "rs = ?both" by simp
  have "search_response rs1 =
      search_response (filter (\<lambda>p. keeps lower (lit ''firstName'') None p \<and> keeps lower (lit ''lastName'') lastName p) ps)"
    using a by (intro search_Inr [OF assms]) simp
  then have rs1: "rs1 = filter (keeps lower (lit ''lastName'') lastName) ps"
    by (simp add: keeps_skip)
  show "subseq rs rs1"
    unfolding rs rs1 by (rule filter_both_subseq(2))
next
  let ?both = "filter (\<lambda>p. keeps lower (lit ''firstName'') firstName p \<and> keeps lower (lit ''lastName'') lastName p) ps"
  assume a: "search_patients_by_name lower pd firstName lastName = Inr (search_response rs)
              \<and> search_patients_by_name lower pd firstName None = Inr (search_response rs2)"
  have "search_response rs = search_response ?both"
    using a by (intro search_Inr [OF assms]) simp
  then have rs: "rs = ?both" by simp
  have "search_response rs2 =
      search_response (filter (\<lambda>p. keeps lower (lit ''firstName'') firstName p \<and> keeps lower (lit ''lastName'') None p) ps)"
    using a by (intro search_Inr [OF assms]) simp
  then have rs2: "rs2 = filter (keeps lower (lit ''firstName'') firstName) ps"
    by (simp add: keeps_skip)
  show "subseq rs rs2"
    unfolding rs rs2 by (rule filter_both_subseq(1))
next
  assume "\<forall>p\<in>set ps. named_record p"
  then show "\<exists>rs. search_patients_by_name lower pd firstName lastName = Inr (search_response rs)"
    using search_total [OF assms] by blast
qed

theorem search_result_subsequence_witness:
  "py_get clinic (lit ''patients'') (JList []) = Inr (JList [anna, diana])
   \<and> search_patients_by_name ascii_lower clinic (Some (lit ''an'')) (Some (lit ''lee'')) = Inr (search_response [anna])
   \<and> search_patients_by_name ascii_lower clinic None (Some (lit ''lee'')) = Inr (search_response [anna])
   \<and> search_patients_by_name ascii_lower clinic (Some (lit ''an'')) None = Inr (search_response [anna, diana])
   \<and> subseq [anna] [anna, diana] \<and> subseq [anna] [anna]
   \<and> set [anna] \<subseteq> set [anna, diana]
   \<and> count_list [anna] anna \<le> count_list [anna, diana] anna"
proof -
  have ds: "py_get clinic (lit ''patients'') (JList []) = Inr (JList [anna, diana])"
    by (simp add: clinic_def)
  have e1: "search_patients_by_name ascii_lower clinic (Some (lit ''an'')) (Some (lit ''lee'')) = Inr (search_response [anna])"
    by (simp add: search_patients_by_name_def apply_name_filter_def name_test_def
          example_defs ascii_lower_def lit_def)
  have e2: "search_patients_by_name ascii_lower clinic None (Some (lit ''lee'')) = Inr (search_response [anna])"
    by (simp add: search_patients_by_name_def apply_name_filter_def name_test_def
          example_defs ascii_lower_def lit_def)
  have e3: "search_patients_by_name ascii_lower clinic (Some (lit ''an'')) None = Inr (search_response [anna, diana])"
    by (simp add: search_patients_by_name_def apply_name_filter_def name_test_def
          example_defs ascii_lower_def lit_def)
  show ?thesis
    using search_result_subsequence [OF ds, of ascii_lower "Some (lit ''an'')" "Some (lit ''lee'')"
            "search_response [anna]" "[anna]" "[anna]" "[anna, diana]"]
          ds e1 e2 e3
    by simp
qed


section \<open>The sub-resource accessors\<close>

lemma py_get_no_http: "py_get p key d \<noteq> Inl (HTTPException c m)"
  by (cases p) simp_all

lemma py_iter_no_http: "py_iter v \<noteq> Inl (HTTPException c m)"
  by (cases v) simp_all

lemma py_len_no_http: "py_len v \<noteq> Inl (HTTPException c m)"
  by (cases v) simp_all

lemma test_filter_no_http: "test_filter t xs \<noteq> Inl (HTTPException c m)"
  by (induction xs) (auto simp: py_get_no_http split: sum.splits)

lemma find_loop_no_http: "find_loop xs pid \<noteq> Inl (HTTPException c m)"
  by (induction xs) (auto simp: py_get_no_http split: sum.splits)

lemma field_body_no_http: "field_body name d p \<noteq> Inl (HTTPException c m)"
  by (auto simp: field_body_def py_get_no_http split: sum.splits)

lemma appointments_body_no_http: "appointments_body p type \<noteq> Inl (HTTPException c m)"
  by (auto simp: appointments_body_def py_get_no_http split: sum.splits option.splits)

lemma test_results_body_no_http: "test_results_body p testType \<noteq> Inl (HTTPException c m)"
  by (auto simp: test_results_body_def py_get_no_http py_iter_no_http py_len_no_http
        test_filter_no_http split: sum.splits option.splits if_splits)

text \<open>The shape every accessor has: look the record up, raise 404, or run the body.\<close>

lemma lookup_then_404:
  assumes "\<And>p. body p \<noteq> Inl (HTTPException 404 d)"
  shows "((case find_patient_by_id pd pid of
             Inl e \<Rightarrow> Inl e
           | Inr patient \<Rightarrow> if \<not> truthy patient then Inl (not_found pid) else body patient)
          = Inl (HTTPException 404 d))
         = (get_patient_by_id pd pid = Inl (HTTPException 404 d))"
  using assms by (auto simp: get_patient_by_id_def split: sum.splits)

lemma found_appointments:
  assumes "find_patient_by_id pd pid = Inr patient" and "patient \<noteq> JNull"
  shows "get_patient_appointments pd pid type = appointments_body patient type"
  using assms find_patient_truthy [OF assms] by (simp add: get_patient_appointments_def)

lemma found_test_results:
  assumes "find_patient_by_id pd pid = Inr patient" and "patient \<noteq> JNull"
  shows "get_patient_test_results pd pid testType = test_results_body patient testType"
  using assms find_patient_truthy [OF assms] by (simp add: get_patient_test_results_def)

lemma found_fields:
  assumes "find_patient_by_id pd pid = Inr patient" and "patient \<noteq> JNull"
  shows "get_patient_medical_history pd pid = field_body (lit ''medicalHistory'') (JObj []) patient"
    and "get_patient_insurance pd pid = field_body (lit ''insurance'') (JObj []) patient"
    and "get_patient_care_providers pd pid = field_body (lit ''careProviders'') (JList []) patient"
    and "get_patient_procedures pd pid = field_body (lit ''procedures'') (JList []) patient"
  using assms find_patient_truthy [OF assms]
  by (simp_all add: get_patient_medical_history_def get_patient_insurance_def
        get_patient_care_providers_def get_patient_procedures_def)

lemma test_filter_objs:
  "\<forall>t\<in>set tests. is_obj t \<Longrightarrow> test_filter x tests = Inr (tests_of_type x tests)"
proof (induction tests)
  case Nil
  show ?case by (simp add: tests_of_type_def)
next
  case (Cons t ts)
  then show ?case by (cases t) (auto simp: tests_of_type_def split: option.splits)
qed

lemma absent_get:
  "is_obj p \<Longrightarrow> field p key = None \<Longrightarrow> py_get p key d = Inr d"
  by (simp add: py_get_obj)

text \<open>
  C4. When the lookup resolves \<open>patient_id\<close> to a record, the appointments accessor
  with \<open>type\<close> one of \<open>upcoming\<close>, \<open>recent\<close>, \<open>past\<close> answers with that bucket
  alone (the empty list when the bucket, or the whole \<open>appointments\<close> field, is absent)
  together with the \<open>type\<close> field; with any other string, or without \<open>type\<close>, it
  answers with the whole \<open>appointments\<close> mapping and no \<open>type\<close> field, and does not
  reject the value.
\<close>

theorem get_patient_appointments_spec:
  assumes "find_patient_by_id pd patient_id = Inr patient" and "patient \<noteq> JNull"
  shows "(t \<in> buckets \<and> (case field patient (lit ''appointments'') of None \<Rightarrow> True | Some a \<Rightarrow> is_obj a) \<longrightarrow>
            get_patient_appointments pd patient_id (Some t) =
              Inr (JObj [(lit ''success'', JBool True),
                         (lit ''type'', JStr t),
                         (lit ''appointments'',
                          (case field patient (lit ''appointments'') of
                             None \<Rightarrow> JList []
                           | Some a \<Rightarrow> (case field a t of None \<Rightarrow> JList [] | Some bucket \<Rightarrow> bucket)))]))
         \<and> (t \<notin> buckets \<longrightarrow>
              get_patient_appointments pd patient_id (Some t) =
                Inr (JObj [(lit ''success'', JBool True),
                           (lit ''appointments'',
                            (case field patient (lit ''appointments'') of None \<Rightarrow> JObj [] | Some a \<Rightarrow> a))]))
         \<and> get_patient_appointments pd patient_id None =
              Inr (JObj [(lit ''success'', JBool True),
                         (lit ''appointments'',
                          (case field patient (lit ''appointments'') of None \<Rightarrow> JObj [] | Some a \<Rightarrow> a))])"
proof -
  have obj: "is_obj patient"
    using find_patient_truthy [OF assms] by simp
  have get: "py_get patient (lit ''appointments'') (JObj []) =
      Inr (case field patient (lit ''appointments'') of None \<Rightarrow> JObj [] | Some a \<Rightarrow> a)"
    using obj by (rule py_get_obj)
  have run: "get_patient_appointments pd patient_id ty = appointments_body patient ty" for ty
    using assms by (rule found_appointments)
  show ?thesis
  proof (intro conjI impI)
    assume b: "t \<in> buckets \<and> (case field patient (lit ''appointments'') of None \<Rightarrow> True | Some a \<Rightarrow> is_obj a)"
    then have t: "t \<noteq> [] \<and> t \<in> set [lit ''upcoming'', lit ''recent'', lit ''past'']"
      by (auto simp: buckets_def)
    show "get_patient_appointments pd patient_id (Some t) =
              Inr (JObj [(lit ''success'', JBool True),
                         (lit ''type'', JStr t),
                         (lit ''appointments'',
                          (case field patient (lit ''appointments'') of
                             None \<Rightarrow> JList []
                           | Some a \<Rightarrow> (case field a t of None \<Rightarrow> JList [] | Some bucket \<Rightarrow> bucket)))])"
    proof (cases "field patient (lit ''appointments'')")
      case None
      then show ?thesis using t get by (simp add: run appointments_body_def)
    next
      case (Some a)
      then have "is_obj a" using b by simp
      then have "py_get a t (JList []) = Inr (case field a t of None \<Rightarrow> JList [] | Some v \<Rightarrow> v)"
        by (rule py_get_obj)
      then show ?thesis using t get Some by (simp add: run appointments_body_def)
    qed
  next
    assume "t \<notin> buckets"
    then show "get_patient_appointments pd patient_id (Some t) =
                Inr (JObj [(lit ''success'', JBool True),
                           (lit ''appointments'',
                            (case field patient (lit ''appointments'') of None \<Rightarrow> JObj [] | Some a \<Rightarrow> a))])"
      using get by (auto simp: run appointments_body_def buckets_def)
  next
    show "get_patient_appointments pd patient_id None =
              Inr (JObj [(lit ''success'', JBool True),
                         (lit ''appointments'',
                          (case field patient (lit ''appointments'') of None \<Rightarrow> JObj [] | Some a \<Rightarrow> a))])"
      using get by (simp add: run appointments_body_def)
  qed
qed

theorem get_patient_appointments_spec_witness:
  "find_patient_by_id clinic (lit ''P2'') = Inr diana \<and> diana \<noteq> JNull
   \<and> (lit ''upcoming'') \<in> buckets \<and> (lit ''recent'') \<in> buckets \<and> (lit ''bogus'') \<notin> buckets
   \<and> field diana (lit ''appointments'') = Some (JObj [(lit ''upcoming'', JList [visit])])
   \<and> get_patient_appointments clinic (lit ''P2'') (Some (lit ''upcoming''))
       = Inr (JObj [(lit ''success'', JBool True), (lit ''type'', JStr (lit ''upcoming'')),
                    (lit ''appointments'', JList [visit])])
   \<and> get_patient_appointments clinic (lit ''P2'') (Some (lit ''recent''))
       = Inr (JObj [(lit ''success'', JBool True), (lit ''type'', JStr (lit ''recent'')),
                    (lit ''appointments'', JList [])])
   \<and> get_patient_appointments clinic (lit ''P2'') (Some (lit ''bogus''))
       = Inr (JObj [(lit ''success'', JBool True),
                    (lit ''appointments'', JObj [(lit ''upcoming'', JList [visit])])])
   \<and> get_patient_appointments clinic (lit ''P2'') None
       = Inr (JObj [(lit ''success'', JBool True),
                    (lit ''appointments'', JObj [(lit ''upcoming'', JList [visit])])])"
proof -
  have f: "find_patient_by_id clinic (lit ''P2'') = Inr diana"
    by (simp add: find_patient_by_id_def clinic_def anna_def diana_def)
  have n: "diana \<noteq> JNull"
    by (simp add: diana_def)
  have a: "field diana (lit ''appointments'') = Some (JObj [(lit ''upcoming'', JList [visit])])"
    by (simp add: diana_def)
  show ?thesis
    using get_patient_appointments_spec [OF f n, of "lit ''upcoming''"]
          get_patient_appointments_spec [OF f n, of "lit ''recent''"]
          get_patient_appointments_spec [OF f n, of "lit ''bogus''"]
          f n
    by (simp add: a buckets_def)
qed

text \<open>
  C5, as the code has it. When the lookup resolves \<open>patient_id\<close> to a record whose
  \<open>testResults\<close> sequence is \<open>tests\<close>, the test-results accessor with a non-empty
  \<open>testType\<close> answers with exactly the entries whose \<open>testType\<close> field equals it,
  compared exactly; without \<open>testType\<close>, or with the empty string, it answers with all
  entries; \<open>count\<close> is the length of the returned list.
\<close>

theorem get_patient_test_results_spec:
  assumes "find_patient_by_id pd patient_id = Inr patient" and "patient \<noteq> JNull"
    and "py_get patient (lit ''testResults'') (JList []) = Inr (JList tests)"
  shows "(testType \<noteq> [] \<and> (\<forall>t\<in>set tests. is_obj t) \<longrightarrow>
            get_patient_test_results pd patient_id (Some testType) =
              Inr (JObj [(lit ''success'', JBool True),
                         (lit ''count'', JNum (int (length (tests_of_type testType tests)))),
                         (lit ''testResults'', JList (tests_of_type testType tests))]))
         \<and> get_patient_test_results pd patient_id None =
              Inr (JObj [(lit ''success'', JBool True),
                         (lit ''count'', JNum (int (length tests))),
                         (lit ''testResults'', JList tests)])
         \<and> get_patient_test_results pd patient_id (Some []) =
              Inr (JObj [(lit ''success'', JBool True),
                         (lit ''count'', JNum (int (length tests))),
                         (lit ''testResults'', JList tests)])"
proof -
  have run: "get_patient_test_results pd patient_id ty = test_results_body patient ty" for ty
    using assms(1,2) by (rule found_test_results)
  show ?thesis
  proof (intro conjI impI)
    assume "testType \<noteq> [] \<and> (\<forall>t\<in>set tests. is_obj t)"
    then show "get_patient_test_results pd patient_id (Some testType) =
              Inr (JObj [(lit ''success'', JBool True),
                         (lit ''count'', JNum (int (length (tests_of_type testType tests)))),
                         (lit ''testResults'', JList (tests_of_type testType tests))])"
      using assms(3) by (simp add: run test_results_body_def test_filter_objs)
  next
    show "get_patient_test_results pd patient_id None =
              Inr (JObj [(lit ''success'', JBool True),
                         (lit ''count'', JNum (int (length tests))),
                         (lit ''testResults'', JList tests)])"
      using assms(3) by (simp add: run test_results_body_def)
  next
    show "get_patient_test_results pd patient_id (Some []) =
              Inr (JObj [(lit ''success'', JBool True),
                         (lit ''count'', JNum (int (length tests))),
                         (lit ''testResults'', JList tests)])"
      using assms(3) by (simp add: run test_results_body_def)
  qed
qed

theorem get_patient_test_results_spec_witness:
  "find_patient_by_id clinic (lit ''P2'') = Inr diana \<and> diana \<noteq> JNull
   \<and> py_get diana (lit ''testResults'') (JList []) = Inr (JList [cbc, xray])
   \<and> is_obj cbc \<and> is_obj xray
   \<and> tests_of_type (lit ''Laboratory'') [cbc, xray] = [cbc]
   \<and> get_patient_test_results clinic (lit ''P2'') (Some (lit ''Laboratory''))
       = Inr (JObj [(lit ''success'', JBool True), (lit ''count'', JNum 1), (lit ''testResults'', JList [cbc])])
   \<and> get_patient_test_results clinic (lit ''P2'') (Some (lit ''laboratory''))
       = Inr (JObj [(lit ''success'', JBool True), (lit ''count'', JNum 0), (lit ''testResults'', JList [])])
   \<and> get_patient_test_results clinic (lit ''P2'') None
       = Inr (JObj [(lit ''success'', JBool True), (lit ''count'', JNum 2),
                    (lit ''testResults'', JList [cbc, xray])])"
proof -
  have f: "find_patient_by_id clinic (lit ''P2'') = Inr diana"
    by (simp add: find_patient_by_id_def clinic_def anna_def diana_def)
  have n: "diana \<noteq> JNull"
    by (simp add: diana_def)
  have ts: "py_get diana (lit ''testResults'') (JList []) = Inr (JList [cbc, xray])"
    by (simp add: diana_def)
  have objs: "\<forall>t\<in>set [cbc, xray]. is_obj t"
    by (simp add: cbc_def xray_def)
  have lab: "tests_of_type (lit ''Laboratory'') [cbc, xray] = [cbc]"
    by (simp add: tests_of_type_def cbc_def xray_def)
  have low: "tests_of_type (lit ''laboratory'') [cbc, xray] = []"
    by (simp add: tests_of_type_def cbc_def xray_def)
  show ?thesis
    using get_patient_test_results_spec [OF f n ts, of "lit ''Laboratory''"]
          get_patient_test_results_spec [OF f n ts, of "lit ''laboratory''"]
          f n ts objs
    by (simp add: lab low)
qed

text \<open>
  The claim as written fails for the empty string: given as \<open>testType\<close>, it selects no
  entry of the sequence by exact match, and the accessor answers with every entry.
\<close>

theorem get_patient_test_results_empty_filter_counterexample:
  "find_patient_by_id clinic (lit ''P2'') = Inr diana
   \<and> py_get diana (lit ''testResults'') (JList []) = Inr (JList [cbc, xray])
   \<and> tests_of_type (lit '''') [cbc, xray] = []
   \<and> get_patient_test_results clinic (lit ''P2'') (Some (lit ''''))
       = Inr (JObj [(lit ''success'', JBool True), (lit ''count'', JNum 2),
                    (lit ''testResults'', JList [cbc, xray])])
   \<and> get_patient_test_results clinic (lit ''P2'') (Some (lit ''''))
       \<noteq> Inr (JObj [(lit ''success'', JBool True), (lit ''count'', JNum 0),
                    (lit ''testResults'', JList [])])"
  by (simp add: get_patient_test_results_def test_results_body_def find_patient_by_id_def
        tests_of_type_def clinic_def anna_def diana_def cbc_def xray_def)

text \<open>
  C7, as the code has it. When the lookup resolves \<open>patient_id\<close> to a record, an accessor
  whose field is absent from the record succeeds with the empty value: the empty mapping
  for \<open>appointments\<close> without a recognised \<open>type\<close> (the empty bucket list, with the
  \<open>type\<close> field, when \<open>type\<close> is one of the three buckets), \<open>medicalHistory\<close> and
  \<open>insurance\<close>; the empty list, with \<open>count\<close> 0, for \<open>testResults\<close> under any
  filter; the empty list for \<open>careProviders\<close> and \<open>procedures\<close>.
\<close>

theorem absent_field_defaults:
  assumes "find_patient_by_id pd patient_id = Inr patient" and "patient \<noteq> JNull"
  shows "(field patient (lit ''appointments'') = None \<longrightarrow>
            get_patient_appointments pd patient_id None =
              Inr (JObj [(lit ''success'', JBool True), (lit ''appointments'', JObj [])])
            \<and> (t \<notin> buckets \<longrightarrow>
                 get_patient_appointments pd patient_id (Some t) =
                   Inr (JObj [(lit ''success'', JBool True), (lit ''appointments'', JObj [])]))
            \<and> (t \<in> buckets \<longrightarrow>
                 get_patient_appointments pd patient_id (Some t) =
                   Inr (JObj [(lit ''success'', JBool True), (lit ''type'', JStr t),
                              (lit ''appointments'', JList [])])))
         \<and> (field patient (lit ''testResults'') = None \<longrightarrow>
              get_patient_test_results pd patient_id testType =
                Inr (JObj [(lit ''success'', JBool True), (lit ''count'', JNum 0),
                           (lit ''testResults'', JList [])]))
         \<and> (field patient (lit ''medicalHistory'') = None \<longrightarrow>
              get_patient_medical_history pd patient_id =
                Inr (JObj [(lit ''success'', JBool True), (lit ''medicalHistory'', JObj [])]))
         \<and> (field patient (lit ''insurance'') = None \<longrightarrow>
              get_patient_insurance pd patient_id =
                Inr (JObj [(lit ''success'', JBool True), (lit ''insurance'', JObj [])]))
         \<and> (field patient (lit ''careProviders'') = None \<longrightarrow>
              get_patient_care_providers pd patient_id =
                Inr (JObj [(lit ''success'', JBool True), (lit ''careProviders'', JList [])]))
         \<and> (field patient (lit ''procedures'') = None \<longrightarrow>
              get_patient_procedures pd patient_id =
                Inr (JObj [(lit ''success'', JBool True), (lit ''procedures'', JList [])]))"
proof -
  have obj: "is_obj patient"
    using find_patient_truthy [OF assms] by simp
  note run = found_appointments [OF assms] found_test_results [OF assms] found_fields [OF assms]
  show ?thesis
  proof (intro conjI impI)
    assume "field patient (lit ''appointments'') = None"
    then have get: "py_get patient (lit ''appointments'') (JObj []) = Inr (JObj [])"
      using obj by (simp add: absent_get)
    show "get_patient_appointments pd patient_id None =
        Inr (JObj [(lit ''success'', JBool True), (lit ''appointments'', JObj [])])"
      using get by (simp add: run appointments_body_def)
    show "get_patient_appointments pd patient_id (Some t) =
        Inr (JObj [(lit ''success'', JBool True), (lit ''appointments'', JObj [])])" if "t \<notin> buckets"
      using get that by (auto simp: run appointments_body_def buckets_def)
    show "get_patient_appointments pd patient_id (Some t) =
        Inr (JObj [(lit ''success'', JBool True), (lit ''type'', JStr t), (lit ''appointments'', JList [])])"
      if "t \<in> buckets"
      using get that by (auto simp: run appointments_body_def buckets_def)
  next
    assume "field patient (lit ''testResults'') = None"
    then have get: "py_get patient (lit ''testResults'') (JList []) = Inr (JList [])"
      using obj by (simp add: absent_get)
    show "get_patient_test_results pd patient_id testType =
        Inr (JObj [(lit ''success'', JBool True), (lit ''count'', JNum 0), (lit ''testResults'', JList [])])"
      using get by (cases testType) (simp_all add: run test_results_body_def)
  next
    assume "field patient (lit ''medicalHistory'') = None"
    then show "get_patient_medical_history pd patient_id =
        Inr (JObj [(lit ''success'', JBool True), (lit ''medicalHistory'', JObj [])])"
      using obj by (simp add: run field_body_def absent_get)
  next
    assume "field patient (lit ''insurance'') = None"
    then show "get_patient_insurance pd patient_id =
        Inr (JObj [(lit ''success'', JBool True), (lit ''insurance'', JObj [])])"
      using obj by (simp add: run field_body_def absent_get)
  next
    assume "field patient (lit ''careProviders'') = None"
    then show "get_patient_care_providers pd patient_id =
        Inr (JObj [(lit ''success'', JBool True), (lit ''careProviders'', JList [])])"
      using obj by (simp add: run field_body_def absent_get)
  next
    assume "field patient (lit ''procedures'') = None"
    then show "get_patient_procedures pd patient_id =
        Inr (JObj [(lit ''success'', JBool True), (lit ''procedures'', JList [])])"
      using obj by (simp add: run field_body_def absent_get)
  qed
qed

theorem absent_field_defaults_witness:
  "find_patient_by_id clinic (lit ''P1'') = Inr anna \<and> anna \<noteq> JNull
   \<and> field anna (lit ''appointments'') = None \<and> field anna (lit ''testResults'') = None
   \<and> field anna (lit ''medicalHistory'') = None \<and> field anna (lit ''insurance'') = None
   \<and> field anna (lit ''careProviders'') = None \<and> field anna (lit ''procedures'') = None
   \<and> (lit ''bogus'') \<notin> buckets \<and> (lit ''past'') \<in> buckets
   \<and> get_patient_appointments clinic (lit ''P1'') None
       = Inr (JObj [(lit ''success'', JBool True), (lit ''appointments'', JObj [])])
   \<and> get_patient_appointments clinic (lit ''P1'') (Some (lit ''bogus''))
       = Inr (JObj [(lit ''success'', JBool True), (lit ''appointments'', JObj [])])
   \<and> get_patient_appointments clinic (lit ''P1'') (Some (lit ''past''))
       = Inr (JObj [(lit ''success'', JBool True), (lit ''type'', JStr (lit ''past'')),
                    (lit ''appointments'', JList [])])
   \<and> get_patient_test_results clinic (lit ''P1'') (Some (lit ''Laboratory''))
       = Inr (JObj [(lit ''success'', JBool True), (lit ''count'', JNum 0), (lit ''testResults'', JList [])])
   \<and> get_patient_medical_history clinic (lit ''P1'')
       = Inr (JObj [(lit ''success'', JBool True), (lit ''medicalHistory'', JObj [])])
   \<and> get_patient_insurance clinic (lit ''P1'')
       = Inr (JObj [(lit ''success'', JBool True), (lit ''insurance'', JObj [])])
   \<and> get_patient_care_providers clinic (lit ''P1'')
       = Inr (JObj [(lit ''success'', JBool True), (lit ''careProviders'', JList [])])
   \<and> get_patient_procedures clinic (lit ''P1'')
       = Inr (JObj [(lit ''success'', JBool True), (lit ''procedures'', JList [])])"
proof -
  have f: "find_patient_by_id clinic (lit ''P1'') = Inr anna"
    by (simp add: find_patient_by_id_def clinic_def anna_def)
  have n: "anna \<noteq> JNull"
    by (simp add: anna_def)
  have absent: "field anna (lit ''appointments'') = None" "field anna (lit ''testResults'') = None"
    "field anna (lit ''medicalHistory'') = None" "field anna (lit ''insurance'') = None"
    "field anna (lit ''careProviders'') = None" "field anna (lit ''procedures'') = None"
    by (simp_all add: anna_def)
  have b: "(lit ''bogus'') \<notin> buckets" "(lit ''past'') \<in> buckets"
    by (simp_all add: buckets_def)
  show ?thesis
    using absent_field_defaults [OF f n, of "lit ''bogus''" "Some (lit ''Laboratory'')"]
          absent_field_defaults [OF f n, of "lit ''past''" "Some (lit ''Laboratory'')"]
          f n
    by (simp add: absent b)
qed

text \<open>
  The claim as written fails for the appointments accessor with a recognised \<open>type\<close>:
  on a record without \<open>appointments\<close> it answers with the empty list of the bucket,
  not with the empty mapping.
\<close>

theorem absent_appointments_bucket_counterexample:
  "find_patient_by_id clinic (lit ''P1'') = Inr anna
   \<and> field anna (lit ''appointments'') = None
   \<and> get_patient_appointments clinic (lit ''P1'') (Some (lit ''upcoming''))
       = Inr (JObj [(lit ''success'', JBool True), (lit ''type'', JStr (lit ''upcoming'')),
                    (lit ''appointments'', JList [])])
   \<and> get_patient_appointments clinic (lit ''P1'') (Some (lit ''upcoming''))
       \<noteq> Inr (JObj [(lit ''success'', JBool True), (lit ''appointments'', JObj [])])
   \<and> JList [] \<noteq> JObj []"
  by (simp add: get_patient_appointments_def appointments_body_def find_patient_by_id_def
        clinic_def anna_def)


text \<open>A record the lookup resolved is an object; what each body answers for an object.\<close>

lemma lookup_then_record:
  assumes "(case find_patient_by_id pd pid of
             Inl e \<Rightarrow> Inl e
           | Inr patient \<Rightarrow> if \<not> truthy patient then Inl (not_found pid) else body patient)
          = Inr resp"
  shows "\<exists>p. get_patient_by_id pd pid = Inr (JObj [(lit ''success'', JBool True), (lit ''patient'', p)])
             \<and> is_obj p \<and> body p = Inr resp"
proof -
  obtain p where f: "find_patient_by_id pd pid = Inr p" and t: "truthy p"
    and b: "body p = Inr resp"
    using assms by (auto split: sum.splits if_splits)
  have "p \<noteq> JNull" using t by auto
  then have "is_obj p" using find_patient_truthy [OF f] by simp
  then show ?thesis using f t b by (simp add: get_patient_by_id_def)
qed

lemma field_body_expected: "is_obj p \<Longrightarrow> field_body name d p = Inr (expected_field name d p)"
  by (simp add: field_body_def py_get_obj expected_field_def field_or_def)

lemma buckets_guard: "(t \<noteq> [] \<and> t \<in> set [lit ''upcoming'', lit ''recent'', lit ''past'']) = (t \<in> buckets)"
  by (auto simp: buckets_def)

lemma py_get_Inr_obj: "py_get v key d = Inr r \<Longrightarrow> r = field_or v key d"
  by (cases v) (auto simp: field_or_def)

lemma appointments_body_expected:
  assumes "is_obj p" and "appointments_body p type = Inr resp"
  shows "resp = expected_appointments p type"
proof -
  have get: "py_get p (lit ''appointments'') (JObj []) = Inr (field_or p (lit ''appointments'') (JObj []))"
    using assms(1) by (simp add: py_get_obj field_or_def)
  show ?thesis
  proof (cases type)
    case None
    then show ?thesis using assms(2) get
      by (simp add: appointments_body_def expected_appointments_def)
  next
    case (Some t)
    show ?thesis
    proof (cases "t \<in> buckets")
      case True
      then have g: "t \<noteq> [] \<and> t \<in> set [lit ''upcoming'', lit ''recent'', lit ''past'']"
        by (simp only: buckets_guard)
      then obtain bucket where
        b: "py_get (field_or p (lit ''appointments'') (JObj [])) t (JList []) = Inr bucket"
        and r: "resp = JObj [(lit ''success'', JBool True), (lit ''type'', JStr t),
                            (lit ''appointments'', bucket)]"
        using assms(2) get Some
        by (simp only: appointments_body_def sum.case option.case if_True split: sum.splits) auto
      have "bucket = field_or (field_or p (lit ''appointments'') (JObj [])) t (JList [])"
        using b by (rule py_get_Inr_obj)
      then show ?thesis using r Some True
        by (simp add: expected_appointments_def)
    next
      case False
      then have g: "\<not> (t \<noteq> [] \<and> t \<in> set [lit ''upcoming'', lit ''recent'', lit ''past''])"
        by (simp only: buckets_guard) simp
      show ?thesis using assms(2) get Some False g
        by (simp only: appointments_body_def sum.case option.case if_False
              expected_appointments_def) simp
    qed
  qed
qed

lemma test_filter_Inr: "test_filter t xs = Inr ys \<Longrightarrow> ys = tests_of_type t xs"
proof (induction xs arbitrary: ys)
  case Nil
  then show ?case by (simp add: tests_of_type_def)
next
  case (Cons x xs)
  then show ?case
    by (cases x) (auto simp: tests_of_type_def split: sum.splits option.splits if_splits)
qed

lemma test_results_body_expected:
  assumes "is_obj p" and "test_results_body p testType = Inr resp"
  shows "resp = expected_test_results p testType"
proof -
  let ?v = "field_or p (lit ''testResults'') (JList [])"
  have get: "py_get p (lit ''testResults'') (JList []) = Inr ?v"
    using assms(1) by (simp add: py_get_obj field_or_def)
  have whole: "resp = JObj [(lit ''success'', JBool True), (lit ''count'', JNum (int (size_of ?v))),
                            (lit ''testResults'', ?v)]"
    if "testType = None \<or> testType = Some []"
    using that assms(2) get
    by (auto simp: test_results_body_def size_of_def split: sum.splits)
  show ?thesis
  proof (cases testType)
    case None
    then show ?thesis using whole by (simp add: expected_test_results_def)
  next
    case (Some t)
    show ?thesis
    proof (cases "t = []")
      case True
      then show ?thesis using whole Some by (simp add: expected_test_results_def)
    next
      case False
      then obtain xs ys where "py_iter ?v = Inr xs" and "test_filter t xs = Inr ys"
        and r: "resp = JObj [(lit ''success'', JBool True), (lit ''count'', JNum (int (length ys))),
                            (lit ''testResults'', JList ys)]"
        using assms(2) get Some
        by (auto simp: test_results_body_def split: sum.splits)
      then have "ys = tests_of_type t (elements ?v)"
        by (simp add: elements_def test_filter_Inr)
      then show ?thesis using r Some False by (simp add: expected_test_results_def)
    qed
  qed
qed

text \<open>
  C8. Get-by-ID and the six accessors resolve the record through the same helper: for
  every \<open>patient_id\<close> and every filter value, an accessor fails with 404 and detail
  \<open>d\<close> exactly when Get-by-ID fails with 404 and detail \<open>d\<close>, that detail being
  \<open>Patient with ID patient_id not found\<close>; and an accessor that succeeds answers from
  the fields of the very record \<open>p\<close> that Get-by-ID returns: the \<open>appointments\<close> of
  \<open>p\<close> or one bucket of it, the \<open>testResults\<close> of \<open>p\<close> or its entries of one type,
  and the \<open>medicalHistory\<close>, \<open>insurance\<close>, \<open>careProviders\<close> and \<open>procedures\<close> of
  \<open>p\<close>, each with its empty value when \<open>p\<close> lacks the field.
\<close>

theorem accessors_resolve_like_get_by_id:
  "((get_patient_appointments pd patient_id type = Inl (HTTPException 404 d))
      = (get_patient_by_id pd patient_id = Inl (HTTPException 404 d)))
   \<and> ((get_patient_test_results pd patient_id testType = Inl (HTTPException 404 d))
      = (get_patient_by_id pd patient_id = Inl (HTTPException 404 d)))
   \<and> ((get_patient_medical_history pd patient_id = Inl (HTTPException 404 d))
      = (get_patient_by_id pd patient_id = Inl (HTTPException 404 d)))
   \<and> ((get_patient_insurance pd patient_id = Inl (HTTPException 404 d))
      = (get_patient_by_id pd patient_id = Inl (HTTPException 404 d)))
   \<and> ((get_patient_care_providers pd patient_id = Inl (HTTPException 404 d))
      = (get_patient_by_id pd patient_id = Inl (HTTPException 404 d)))
   \<and> ((get_patient_procedures pd patient_id = Inl (HTTPException 404 d))
      = (get_patient_by_id pd patient_id = Inl (HTTPException 404 d)))
   \<and> (get_patient_by_id pd patient_id = Inl (HTTPException 404 d) \<longrightarrow>
        d = lit ''Patient with ID '' @ patient_id @ lit '' not found'')
   \<and> (get_patient_appointments pd patient_id type = Inr resp \<longrightarrow>
        (\<exists>p. get_patient_by_id pd patient_id
                = Inr (JObj [(lit ''success'', JBool True), (lit ''patient'', p)])
             \<and> resp = expected_appointments p type))
   \<and> (get_patient_test_results pd patient_id testType = Inr resp \<longrightarrow>
        (\<exists>p. get_patient_by_id pd patient_id
                = Inr (JObj [(lit ''success'', JBool True), (lit ''patient'', p)])
             \<and> resp = expected_test_results p testType))
   \<and> (get_patient_medical_history pd patient_id = Inr resp \<longrightarrow>
        (\<exists>p. get_patient_by_id pd patient_id
                = Inr (JObj [(lit ''success'', JBool True), (lit ''patient'', p)])
             \<and> resp = JObj [(lit ''success'', JBool True),
                           (lit ''medicalHistory'', field_or p (lit ''medicalHistory'') (JObj []))]))
   \<and> (get_patient_insurance pd patient_id = Inr resp \<longrightarrow>
        (\<exists>p. get_patient_by_id pd patient_id
                = Inr (JObj [(lit ''success'', JBool True), (lit ''patient'', p)])
             \<and> resp = JObj [(lit ''success'', JBool True),
                           (lit ''insurance'', field_or p (lit ''insurance'') (JObj []))]))
   \<and> (get_patient_care_providers pd patient_id = Inr resp \<longrightarrow>
        (\<exists>p. get_patient_by_id pd patient_id
                = Inr (JObj [(lit ''success'', JBool True), (lit ''patient'', p)])
             \<and> resp = JObj [(lit ''success'', JBool True),
                           (lit ''careProviders'', field_or p (lit ''careProviders'') (JList []))]))
   \<and> (get_patient_procedures pd patient_id = Inr resp \<longrightarrow>
        (\<exists>p. get_patient_by_id pd patient_id
                = Inr (JObj [(lit ''success'', JBool True), (lit ''patient'', p)])
             \<and> resp = JObj [(lit ''success'', JBool True),
                           (lit ''procedures'', field_or p (lit ''procedures'') (JList []))]))"
proof (intro conjI impI)
  show "(get_patient_appointments pd patient_id type = Inl (HTTPException 404 d))
      = (get_patient_by_id pd patient_id = Inl (HTTPException 404 d))"
    unfolding get_patient_appointments_def
    by (rule lookup_then_404) (rule appointments_body_no_http)
  show "(get_patient_test_results pd patient_id testType = Inl (HTTPException 404 d))
      = (get_patient_by_id pd patient_id = Inl (HTTPException 404 d))"
    unfolding get_patient_test_results_def
    by (rule lookup_then_404) (rule test_results_body_no_http)
  show "(get_patient_medical_history pd patient_id = Inl (HTTPException 404 d))
      = (get_patient_by_id pd patient_id = Inl (HTTPException 404 d))"
    unfolding get_patient_medical_history_def
    by (rule lookup_then_404) (rule field_body_no_http)
  show "(get_patient_insurance pd patient_id = Inl (HTTPException 404 d))
      = (get_patient_by_id pd patient_id = Inl (HTTPException 404 d))"
    unfolding get_patient_insurance_def
    by (rule lookup_then_404) (rule field_body_no_http)
  show "(get_patient_care_providers pd patient_id = Inl (HTTPException 404 d))
      = (get_patient_by_id pd patient_id = Inl (HTTPException 404 d))"
    unfolding get_patient_care_providers_def
    by (rule lookup_then_404) (rule field_body_no_http)
  show "(get_patient_procedures pd patient_id = Inl (HTTPException 404 d))
      = (get_patient_by_id pd patient_id = Inl (HTTPException 404 d))"
    unfolding get_patient_procedures_def
    by (rule lookup_then_404) (rule field_body_no_http)
next
  assume "get_patient_by_id pd patient_id = Inl (HTTPException 404 d)"
  then show "d = lit ''Patient with ID '' @ patient_id @ lit '' not found''"
    by (auto simp: get_patient_by_id_def find_patient_by_id_def not_found_def
          not_found_detail_def py_get_no_http py_iter_no_http find_loop_no_http
          split: sum.splits if_splits)
next
  assume "get_patient_appointments pd patient_id type = Inr resp"
  then obtain p where p: "get_patient_by_id pd patient_id
      = Inr (JObj [(lit ''success'', JBool True), (lit ''patient'', p)])"
    and obj: "is_obj p" and run: "appointments_body p type = Inr resp"
    unfolding get_patient_appointments_def by (rule lookup_then_record [elim_format]) blast
  have "resp = expected_appointments p type"
    using obj run by (rule appointments_body_expected)
  then show "\<exists>p. get_patient_by_id pd patient_id
                = Inr (JObj [(lit ''success'', JBool True), (lit ''patient'', p)])
             \<and> resp = expected_appointments p type"
    using p by blast
next
  assume "get_patient_test_results pd patient_id testType = Inr resp"
  then obtain p where p: "get_patient_by_id pd patient_id
      = Inr (JObj [(lit ''success'', JBool True), (lit ''patient'', p)])"
    and obj: "is_obj p" and run: "test_results_body p testType = Inr resp"
    unfolding get_patient_test_results_def by (rule lookup_then_record [elim_format]) blast
  have "resp = expected_test_results p testType"
    using obj run by (rule test_results_body_expected)
  then show "\<exists>p. get_patient_by_id pd patient_id
                = Inr (JObj [(lit ''success'', JBool True), (lit ''patient'', p)])
             \<and> resp = expected_test_results p testType"
    using p by blast
next
  assume "get_patient_medical_history pd patient_id = Inr resp"
  then obtain p where p: "get_patient_by_id pd patient_id
      = Inr (JObj [(lit ''success'', JBool True), (lit ''patient'', p)])"
    and obj: "is_obj p" and run: "field_body (lit ''medicalHistory'') (JObj []) p = Inr resp"
    unfolding get_patient_medical_history_def by (rule lookup_then_record [elim_format]) blast
  have "resp = JObj [(lit ''success'', JBool True),
                           (lit ''medicalHistory'', field_or p (lit ''medicalHistory'') (JObj []))]"
    using obj run by (simp add: field_body_expected expected_field_def)
  then show "\<exists>p. get_patient_by_id pd patient_id
                = Inr (JObj [(lit ''success'', JBool True), (lit ''patient'', p)])
             \<and> resp = JObj [(lit ''success'', JBool True),
                           (lit ''medicalHistory'', field_or p (lit ''medicalHistory'') (JObj []))]"
    using p by blast
next
  assume "get_patient_insurance pd patient_id = Inr resp"
  then obtain p where p: "get_patient_by_id pd patient_id
      = Inr (JObj [(lit ''success'', JBool True), (lit ''patient'', p)])"
    and obj: "is_obj p" and run: "field_body (lit ''insurance'') (JObj []) p = Inr resp"
    unfolding get_patient_insurance_def by (rule lookup_then_record [elim_format]) blast
  have "resp = JObj [(lit ''success'', JBool True),
                           (lit ''insurance'', field_or p (lit ''insurance'') (JObj []))]"
    using obj run by (simp add: field_body_expected expected_field_def)
  then show "\<exists>p. get_patient_by_id pd patient_id
                = Inr (JObj [(lit ''success'', JBool True), (lit ''patient'', p)])
             \<and> resp = JObj [(lit ''success'', JBool True),
                           (lit ''insurance'', field_or p (lit ''insurance'') (JObj []))]"
    using p by blast
next
  assume "get_patient_care_providers pd patient_id = Inr resp"
  then obtain p where p: "get_patient_by_id pd patient_id
      = Inr (JObj [(lit ''success'', JBool True), (lit ''patient'', p)])"
    and obj: "is_obj p" and run: "field_body (lit ''careProviders'') (JList []) p = Inr resp"
    unfolding get_patient_care_providers_def by (rule lookup_then_record [elim_format]) blast
  have "resp = JObj [(lit ''success'', JBool True),
                           (lit ''careProviders'', field_or p (lit ''careProviders'') (JList []))]"
    using obj run by (simp add: field_body_expected expected_field_def)
  then show "\<exists>p. get_patient_by_id pd patient_id
                = Inr (JObj [(lit ''success'', JBool True), (lit ''patient'', p)])
             \<and> resp = JObj [(lit ''success'', JBool True),
                           (lit ''careProviders'', field_or p (lit ''careProviders'') (JList []))]"
    using p by blast
next
  assume "get_patient_procedures pd patient_id = Inr resp"
  then obtain p where p: "get_patient_by_id pd patient_id
      = Inr (JObj [(lit ''success'', JBool True), (lit ''patient'', p)])"
    and obj: "is_obj p" and run: "field_body (lit ''procedures'') (JList []) p = Inr resp"
    unfolding get_patient_procedures_def by (rule lookup_then_record [elim_format]) blast
  have "resp = JObj [(lit ''success'', JBool True),
                           (lit ''procedures'', field_or p (lit ''procedures'') (JList []))]"
    using obj run by (simp add: field_body_expected expected_field_def)
  then show "\<exists>p. get_patient_by_id pd patient_id
                = Inr (JObj [(lit ''success'', JBool True), (lit ''patient'', p)])
             \<and> resp = JObj [(lit ''success'', JBool True),
                           (lit ''procedures'', field_or p (lit ''procedures'') (JList []))]"
    using p by blast
qed

theorem accessors_resolve_like_get_by_id_witness:
  "get_patient_by_id clinic (lit ''P9'') = Inl (HTTPException 404 (lit ''Patient with ID P9 not found''))
   \<and> get_patient_appointments clinic (lit ''P9'') (Some (lit ''upcoming'')) = Inl (HTTPException 404 (lit ''Patient with ID P9 not found''))
   \<and> get_patient_test_results clinic (lit ''P9'') (Some (lit ''Laboratory'')) = Inl (HTTPException 404 (lit ''Patient with ID P9 not found''))
   \<and> get_patient_medical_history clinic (lit ''P9'') = Inl (HTTPException 404 (lit ''Patient with ID P9 not found''))
   \<and> get_patient_insurance clinic (lit ''P9'') = Inl (HTTPException 404 (lit ''Patient with ID P9 not found''))
   \<and> get_patient_care_providers clinic (lit ''P9'') = Inl (HTTPException 404 (lit ''Patient with ID P9 not found''))
   \<and> get_patient_procedures clinic (lit ''P9'') = Inl (HTTPException 404 (lit ''Patient with ID P9 not found''))
   \<and> get_patient_by_id clinic (lit ''P2'')
       = Inr (JObj [(lit ''success'', JBool True), (lit ''patient'', diana)])
   \<and> get_patient_test_results clinic (lit ''P2'') (Some (lit ''Radiology''))
       = Inr (JObj [(lit ''success'', JBool True), (lit ''count'', JNum 1),
                    (lit ''testResults'', JList [xray])])
   \<and> expected_test_results diana (Some (lit ''Radiology''))
       = JObj [(lit ''success'', JBool True), (lit ''count'', JNum 1),
               (lit ''testResults'', JList [xray])]
   \<and> get_patient_appointments clinic (lit ''P2'') (Some (lit ''upcoming''))
       = Inr (JObj [(lit ''success'', JBool True), (lit ''type'', JStr (lit ''upcoming'')),
                    (lit ''appointments'', JList [visit])])
   \<and> expected_appointments diana (Some (lit ''upcoming''))
       = JObj [(lit ''success'', JBool True), (lit ''type'', JStr (lit ''upcoming'')),
               (lit ''appointments'', JList [visit])]"
proof -
  have missing: "get_patient_by_id clinic (lit ''P9'') = Inl (HTTPException 404 (lit ''Patient with ID P9 not found''))"
    by (simp add: get_patient_by_id_def find_patient_by_id_def not_found_def
          not_found_detail_def clinic_def anna_def diana_def lit_append [symmetric])
  have found: "get_patient_by_id clinic (lit ''P2'')
      = Inr (JObj [(lit ''success'', JBool True), (lit ''patient'', diana)])"
    by (simp add: get_patient_by_id_def find_patient_by_id_def clinic_def anna_def diana_def)
  have results: "get_patient_test_results clinic (lit ''P2'') (Some (lit ''Radiology''))
      = Inr (JObj [(lit ''success'', JBool True), (lit ''count'', JNum 1),
                   (lit ''testResults'', JList [xray])])"
    by (simp add: get_patient_test_results_def test_results_body_def find_patient_by_id_def
          clinic_def anna_def diana_def cbc_def xray_def)
  have expected_results: "expected_test_results diana (Some (lit ''Radiology''))
      = JObj [(lit ''success'', JBool True), (lit ''count'', JNum 1),
              (lit ''testResults'', JList [xray])]"
    by (simp add: expected_test_results_def field_or_def elements_def tests_of_type_def
          diana_def cbc_def xray_def)
  have appointments: "get_patient_appointments clinic (lit ''P2'') (Some (lit ''upcoming''))
      = Inr (JObj [(lit ''success'', JBool True), (lit ''type'', JStr (lit ''upcoming'')),
                   (lit ''appointments'', JList [visit])])"
    by (simp add: get_patient_appointments_def appointments_body_def find_patient_by_id_def
          clinic_def anna_def diana_def)
  have expected_appointments: "expected_appointments diana (Some (lit ''upcoming''))
      = JObj [(lit ''success'', JBool True), (lit ''type'', JStr (lit ''upcoming'')),
              (lit ''appointments'', JList [visit])]"
    by (simp add: expected_appointments_def field_or_def buckets_def diana_def)
  show ?thesis
    using accessors_resolve_like_get_by_id [where pd = clinic and patient_id = "lit ''P9''"
            and type = "Some (lit ''upcoming'')" and testType = "Some (lit ''Laboratory'')"
            and d = "lit ''Patient with ID P9 not found''"]
          accessors_resolve_like_get_by_id [where pd = clinic and patient_id = "lit ''P2''"
            and type = "Some (lit ''upcoming'')" and testType = "Some (lit ''Radiology'')"
            and resp = "JObj [(lit ''success'', JBool True), (lit ''count'', JNum 1),
                   (lit ''testResults'', JList [xray])]"]
          missing found results expected_results appointments expected_appointments
    by simp
qed

end
